theory Spec2Isabelle
  imports Main "HOL-Library.Word" "HOL-Library.Sublist" "HOL-Library.Monad_Syntax"
begin

section \<open>JavaScript strings and values\<close>

text \<open>
  A JavaScript string is a sequence of UTF-16 code units; \<open>.length\<close> counts code units and
  the regular expressions of \<open>server.js\<close> (which carry no \<open>u\<close> flag) match code units.
  ASCII literals of the source are written through \<open>js\<close>; the Hebrew literals are given by
  their code units.
\<close>

type_synonym code_unit = "16 word"
type_synonym jstring = "code_unit list"

definition js :: "string \<Rightarrow> jstring" where
  "js s = map (\<lambda>c. of_nat (of_char c)) s"

definition amp :: code_unit where "amp = 0x26"
definition lt :: code_unit where "lt = 0x3C"
definition gt :: code_unit where "gt = 0x3E"
definition quot :: code_unit where "quot = 0x22"
definition nl :: code_unit where "nl = 0x0A"

text \<open>
  ECMAScript \<open>WhiteSpace\<close> and \<open>LineTerminator\<close>: the code units that
  \<open>String.prototype.trim\<close> strips and that \<open>\s\<close> matches.
\<close>

definition WhiteSpace :: "code_unit list" where
  "WhiteSpace = [0x0009, 0x000B, 0x000C, 0x0020, 0x00A0, 0x1680,
                 0x2000, 0x2001, 0x2002, 0x2003, 0x2004, 0x2005, 0x2006, 0x2007, 0x2008,
                 0x2009, 0x200A, 0x202F, 0x205F, 0x3000, 0xFEFF]"

definition LineTerminator :: "code_unit list" where
  "LineTerminator = [0x000A, 0x000D, 0x2028, 0x2029]"

definition is_space :: "code_unit \<Rightarrow> bool" where
  "is_space c = (c \<in> set (WhiteSpace @ LineTerminator))"

text \<open>\<open>\d\<close>: the ASCII digits.\<close>

definition is_digit :: "code_unit \<Rightarrow> bool" where
  "is_digit c = (0x30 \<le> c \<and> c \<le> 0x39)"

text \<open>\<open>String.prototype.trim\<close>.\<close>

definition trim :: "jstring \<Rightarrow> jstring" where
  "trim s = rev (dropWhile is_space (rev (dropWhile is_space s)))"

text \<open>
  \<open>s.replace(/c/g, r)\<close> for a pattern that is one literal character and a replacement
  text without \<open>$\<close>: every occurrence of \<open>c\<close> becomes \<open>r\<close>, in one pass from
  left to right.
\<close>

definition replace_all :: "code_unit \<Rightarrow> jstring \<Rightarrow> jstring \<Rightarrow> jstring" where
  "replace_all c r s = concat (map (\<lambda>u. if u = c then r else [u]) s)"

text \<open>
  The values a field of the parsed JSON body can hold: absent (\<open>undefined\<close>), \<open>null\<close>,
  a boolean, a number or a string. Numbers are the integer-valued ones below \<open>10^21\<close> in
  magnitude, which \<open>String\<close> prints in plain decimal. Arrays and objects as field values
  are outside this model.
\<close>

datatype jsval = JUndefined | JNull | JBool bool | JNum int | JStr jstring

fun digits :: "nat \<Rightarrow> jstring" where
  "digits n = (if n < 10 then [0x30 + of_nat n]
               else digits (n div 10) @ [0x30 + of_nat (n mod 10)])"

declare digits.simps [simp del]

text \<open>\<open>String(v)\<close>.\<close>

fun to_String :: "jsval \<Rightarrow> jstring" where
  "to_String JUndefined = js ''undefined''"
| "to_String JNull = js ''null''"
| "to_String (JBool b) = (if b then js ''true'' else js ''false'')"
| "to_String (JNum n) = (if n < 0 then js ''-'' @ digits (nat (- n)) else digits (nat n))"
| "to_String (JStr s) = s"

text \<open>Truthiness, \<open>v == null\<close>, and \<open>v ?? d\<close>.\<close>

fun truthy :: "jsval \<Rightarrow> bool" where
  "truthy JUndefined = False"
| "truthy JNull = False"
| "truthy (JBool b) = b"
| "truthy (JNum n) = (n \<noteq> 0)"
| "truthy (JStr s) = (s \<noteq> [])"

fun loose_null :: "jsval \<Rightarrow> bool" where
  "loose_null JUndefined = True"
| "loose_null JNull = True"
| "loose_null _ = False"

definition nullish_or :: "jsval \<Rightarrow> jsval \<Rightarrow> jsval" where
  "nullish_or v d = (if loose_null v then d else v)"

text \<open>
  \<open>v.trim()\<close>: only strings have the method; on any other value of the model the call
  throws a \<open>TypeError\<close> (\<open>None\<close>).
\<close>

fun call_trim :: "jsval \<Rightarrow> jstring option" where
  "call_trim (JStr s) = Some (trim s)"
| "call_trim _ = None"

section \<open>The HTML-escape helper\<close>

text \<open>
  \<^verbatim>\<open>function esc(str) { return String(str).replace(/&/g, '&amp;')
      .replace(/</g, '&lt;').replace(/>/g, '&gt;').replace(/"/g, '&quot;'); }\<close>
\<close>

definition esc :: "jsval \<Rightarrow> jstring" where
  "esc str =
     replace_all quot (js ''&quot;'')
       (replace_all gt (js ''&gt;'')
         (replace_all lt (js ''&lt;'')
           (replace_all amp (js ''&amp;'') (to_String str))))"

text \<open>
  The escaping as the specification words it: each character on its own is replaced by
  its entity, every other character is kept.
\<close>

definition entity :: "code_unit \<Rightarrow> jstring" where
  "entity c =
     (if c = amp then js ''&amp;''
      else if c = lt then js ''&lt;''
      else if c = gt then js ''&gt;''
      else if c = quot then js ''&quot;''
      else [c])"

definition html_escape :: "jstring \<Rightarrow> jstring" where
  "html_escape s = concat (map entity s)"

section \<open>The contact endpoint\<close>

subsection \<open>Request, response and mail\<close>

text \<open>
  The six properties the handler reads from the JSON body. \<open>req.body\<close> itself may be
  \<open>undefined\<close> (\<open>None\<close>); \<open>req.body || {}\<close> then destructures the empty object.
\<close>

record submission =
  name :: jsval
  phone :: jsval
  caseType :: jsval
  email :: jsval
  message :: jsval
  lang :: jsval

definition no_fields :: submission where
  "no_fields = \<lparr>name = JUndefined, phone = JUndefined, caseType = JUndefined,
                email = JUndefined, message = JUndefined, lang = JUndefined\<rparr>"

definition destructure :: "submission option \<Rightarrow> submission" where
  "destructure body = (case body of None \<Rightarrow> no_fields | Some b \<Rightarrow> b)"

text \<open>\<open>b[field]\<close> for a property name.\<close>

definition property :: "submission \<Rightarrow> jstring \<Rightarrow> jsval" where
  "property b k =
     (if k = js ''name'' then name b
      else if k = js ''phone'' then phone b
      else if k = js ''caseType'' then caseType b
      else if k = js ''email'' then email b
      else if k = js ''message'' then message b
      else if k = js ''lang'' then lang b
      else JUndefined)"

text \<open>
  A JSON response \<open>res.status(s).json({ok, error, fields})\<close>; \<open>error\<close> and \<open>fields\<close>
  are \<open>None\<close> when the object has no such key. The key \<open>fields\<close> is the selector
  \<open>fields_js\<close> here, and the keys \<open>from\<close> and \<open>to\<close> of the mail are \<open>from_hdr\<close> and
  \<open>to_hdr\<close>: the plain names are taken in Isabelle.
\<close>

record response =
  status :: nat
  ok :: bool
  error :: "jstring option"
  fields_js :: "jstring list option"

record mail =
  from_hdr :: jstring
  to_hdr :: jstring
  subject :: jstring
  html :: jstring

text \<open>
  What one run of the handler does: the reply (\<open>Unhandled\<close> when a \<open>TypeError\<close> escapes
  the async handler, which then sends nothing itself), the mails handed to
  \<open>transporter.sendMail\<close>, and the console lines, each the list of its arguments.
\<close>

datatype reply = Reply response | Unhandled

record result =
  reply :: reply
  sent :: "mail list"
  logged :: "jstring list list"

definition respond :: "response \<Rightarrow> result" where
  "respond r = \<lparr>reply = Reply r, sent = [], logged = []\<rparr>"

definition rejected :: result where
  "rejected = \<lparr>reply = Unhandled, sent = [], logged = []\<rparr>"

subsection \<open>Mail transport\<close>

text \<open>
  \<open>process.env\<close>: a variable is unset (\<open>None\<close>) or a string. The transporter is created
  once, and only when \<open>SMTP_PASS\<close> is truthy.
\<close>

record env =
  SMTP_USER :: "jstring option"
  SMTP_PASS :: "jstring option"

record transport =
  service :: jstring
  auth_user :: jstring
  auth_pass :: jstring

definition env_or :: "jstring option \<Rightarrow> jstring \<Rightarrow> jstring" where
  "env_or v d = (case v of None \<Rightarrow> d | Some s \<Rightarrow> if s = [] then d else s)"

definition transporter :: "env \<Rightarrow> transport option" where
  "transporter e =
     (case SMTP_PASS e of
        None \<Rightarrow> None
      | Some p \<Rightarrow>
          if p = [] then None
          else Some \<lparr>service = js ''gmail'',
                     auth_user = env_or (SMTP_USER e) (js ''pardooren@gmail.com''),
                     auth_pass = p\<rparr>)"

subsection \<open>Validation\<close>

text \<open>
  \<^verbatim>\<open>const required = { name, phone, caseType };
  const missing = Object.entries(required)
      .filter(([, v]) => v == null || String(v).trim() === '').map(([k]) => k);\<close>
\<close>

definition required :: "submission \<Rightarrow> (jstring \<times> jsval) list" where
  "required b = [(js ''name'', name b), (js ''phone'', phone b), (js ''caseType'', caseType b)]"

definition missing :: "submission \<Rightarrow> jstring list" where
  "missing b =
     map fst (filter (\<lambda>(k, v). loose_null v \<or> trim (to_String v) = []) (required b))"

definition limits :: "(jstring \<times> nat) list" where
  "limits = [(js ''name'', 200), (js ''phone'', 30), (js ''caseType'', 100),
             (js ''email'', 254), (js ''message'', 5000)]"

datatype check = Pass | Fail response | Throw

text \<open>
  \<^verbatim>\<open>for (const [field, max] of Object.entries(limits)) {
      if (req.body[field] && String(req.body[field]).length > max) {
          return res.status(400).json({ ok: false,
              error: `${field} exceeds maximum length of ${max}` }); } }\<close>
  Reading a property of an undefined \<open>req.body\<close> throws.
\<close>

fun length_loop :: "submission option \<Rightarrow> (jstring \<times> nat) list \<Rightarrow> check" where
  "length_loop body [] = Pass"
| "length_loop body ((field, mx) # rest) =
     (case body of
        None \<Rightarrow> Throw
      | Some b \<Rightarrow>
          if truthy (property b field) \<and> length (to_String (property b field)) > mx
          then Fail \<lparr>status = 400, ok = False,
                      error = Some (field @ js '' exceeds maximum length of '' @ digits mx),
                      fields_js = None\<rparr>
          else length_loop body rest)"

text \<open>\<^verbatim>\<open>/^[\d\s\-+().]+$/.test(phone)\<close>: the argument is converted with \<open>String\<close>.\<close>

definition phone_class :: "code_unit \<Rightarrow> bool" where
  "phone_class c = (is_digit c \<or> is_space c \<or> c \<in> set (js ''-+().''))"

definition phone_test :: "jsval \<Rightarrow> bool" where
  "phone_test v = (to_String v \<noteq> [] \<and> list_all phone_class (to_String v))"

subsection \<open>Rendering the mail\<close>

text \<open>
  The Hebrew literals of the templates, by code unit: the subject prefix (ending in a
  colon and a space), the heading, and the five row labels. \<open>dash\<close> stands
  between name and case type in the subject: an en dash (U+2013) between two spaces.
\<close>

definition he_subject :: jstring where
  "he_subject = [0x05E4, 0x05E0, 0x05D9, 0x05D9, 0x05D4, 0x0020, 0x05D7, 0x05D3, 0x05E9, 0x05D4,
                 0x003A, 0x0020]"

definition dash :: jstring where
  "dash = [0x0020, 0x2013, 0x0020]"

definition he_heading :: jstring where
  "he_heading = [0x05E4, 0x05E0, 0x05D9, 0x05D9, 0x05D4, 0x0020, 0x05D7, 0x05D3, 0x05E9, 0x05D4,
                 0x0020, 0x05DE, 0x05D0, 0x05EA, 0x05E8, 0x0020, 0x05D0, 0x05DC, 0x05D5, 0x05DF,
                 0x0020, 0x05E4, 0x05E8, 0x05D3, 0x05D5]"

definition he_name :: jstring where
  "he_name = [0x05E9, 0x05DD]"

definition he_phone :: jstring where
  "he_phone = [0x05D8, 0x05DC, 0x05E4, 0x05D5, 0x05DF]"

definition he_caseType :: jstring where
  "he_caseType = [0x05E1, 0x05D5, 0x05D2, 0x0020, 0x05D4, 0x05EA, 0x05D9, 0x05E7]"

definition he_email :: jstring where
  "he_email = [0x05D0, 0x05D9, 0x05DE, 0x05D9, 0x05D9, 0x05DC]"

definition he_message :: jstring where
  "he_message = [0x05E4, 0x05E8, 0x05D8, 0x05D9, 0x05DD]"

definition subject_line :: "bool \<Rightarrow> jstring \<Rightarrow> jstring \<Rightarrow> jstring" where
  "subject_line isHe safeName safeCaseType =
     (if isHe then he_subject @ safeName @ dash @ safeCaseType
      else js ''New Contact: '' @ safeName @ dash @ safeCaseType)"

text \<open>The template literal \<open>html\<close>, piece by piece, with its line breaks and indentation.\<close>

definition html_body ::
  "bool \<Rightarrow> jstring \<Rightarrow> jstring \<Rightarrow> jstring \<Rightarrow> jstring \<Rightarrow> jstring \<Rightarrow> jstring" where
  "html_body isHe safeName safePhone safeCaseType safeEmail safeMessage =
     js ''\<newline>        <div dir=\"''
     @ (if isHe then js ''rtl'' else js ''ltr'')
     @ js ''\" style=\"font-family:sans-serif;max-width:600px;margin:0 auto\">\<newline>            <h2 style=\"color:#835e21\">''
     @ (if isHe then he_heading else js ''New contact from Alon Pardo website'')
     @ js ''</h2>\<newline>            <table style=\"width:100%;border-collapse:collapse\">\<newline>                <tr><td style=\"padding:8px;font-weight:bold;border-bottom:1px solid #eee;width:30%\">''
     @ (if isHe then he_name else js ''Name'')
     @ js ''</td><td style=\"padding:8px;border-bottom:1px solid #eee\">''
     @ safeName
     @ js ''</td></tr>\<newline>                <tr><td style=\"padding:8px;font-weight:bold;border-bottom:1px solid #eee\">''
     @ (if isHe then he_phone else js ''Phone'')
     @ js ''</td><td style=\"padding:8px;border-bottom:1px solid #eee\">''
     @ safePhone
     @ js ''</td></tr>\<newline>                <tr><td style=\"padding:8px;font-weight:bold;border-bottom:1px solid #eee\">''
     @ (if isHe then he_caseType else js ''Case Type'')
     @ js ''</td><td style=\"padding:8px;border-bottom:1px solid #eee\">''
     @ safeCaseType
     @ js ''</td></tr>\<newline>                ''
     @ (if safeEmail \<noteq> []
        then js ''<tr><td style=\"padding:8px;font-weight:bold;border-bottom:1px solid #eee\">''
             @ (if isHe then he_email else js ''Email'')
             @ js ''</td><td style=\"padding:8px;border-bottom:1px solid #eee\">''
             @ safeEmail
             @ js ''</td></tr>''
        else [])
     @ js ''\<newline>                <tr><td style=\"padding:8px;font-weight:bold;border-bottom:1px solid #eee;vertical-align:top\">''
     @ (if isHe then he_message else js ''Message'')
     @ js ''</td><td style=\"padding:8px;border-bottom:1px solid #eee\">''
     @ safeMessage
     @ js ''</td></tr>\<newline>            </table>\<newline>        </div>''"

text \<open>
  Lines 94 to 123: the five trimmed and escaped values, the language switch, and the
  message object handed to \<open>sendMail\<close>. A \<open>.trim()\<close> on a value that is not a string
  throws, and no mail is composed (\<open>None\<close>).
\<close>

definition compose :: "env \<Rightarrow> submission \<Rightarrow> mail option" where
  "compose e b = do {
     n \<leftarrow> call_trim (name b);
     p \<leftarrow> call_trim (phone b);
     c \<leftarrow> call_trim (caseType b);
     safeEmail \<leftarrow> (if truthy (email b)
                   then map_option (\<lambda>t. esc (JStr t)) (call_trim (email b))
                   else Some []);
     m \<leftarrow> call_trim (nullish_or (message b) (JStr []));
     let safeName = esc (JStr n);
         safePhone = esc (JStr p);
         safeCaseType = esc (JStr c);
         safeMessage = replace_all nl (js ''<br>'') (esc (JStr m));
         isHe = (lang b = JStr (js ''he''))
     in Some \<lparr>from_hdr = js ''\"Alon Pardo Website\" <''
                            @ env_or (SMTP_USER e) (js ''pardooren@gmail.com'') @ js ''>'',
                to_hdr = js ''pardooren@gmail.com'',
                subject = subject_line isHe safeName safeCaseType,
                html = html_body isHe safeName safePhone safeCaseType safeEmail safeMessage\<rparr>
   }"

subsection \<open>The handler\<close>

definition warn_line :: jstring where
  "warn_line = js ''SMTP_PASS not configured '' @ [0x2013] @ js '' email skipped''"

text \<open>
  \<open>app.post('/api/contact', contactLimiter, async (req, res) => ...)\<close>, for a request the
  rate limiter has let through. The limiter is the \<open>express-rate-limit\<close> package, set up
  with \<open>windowMs: 15 * 60 * 1000\<close> and \<open>max: 5\<close>; how it counts requests over time is
  not code of \<open>server.js\<close> and is not modelled. \<open>sendMail t m\<close> is the outcome of
  \<open>await transporter.sendMail(m)\<close>: \<open>None\<close> when it resolves, \<open>Some msg\<close> when it throws an
  error whose \<open>message\<close> is \<open>msg\<close>.
\<close>

definition contact_handler ::
  "env \<Rightarrow> (transport \<Rightarrow> mail \<Rightarrow> jstring option) \<Rightarrow> submission option \<Rightarrow> result" where
  "contact_handler e sendMail body =
     (let b = destructure body in
      if missing b \<noteq> []
      then respond \<lparr>status = 400, ok = False, error = Some (js ''Missing required fields''),
                     fields_js = Some (missing b)\<rparr>
      else
        case length_loop body limits of
          Fail r \<Rightarrow> respond r
        | Throw \<Rightarrow> rejected
        | Pass \<Rightarrow>
            if \<not> phone_test (phone b)
            then respond \<lparr>status = 400, ok = False, error = Some (js ''Invalid phone format''),
                           fields_js = None\<rparr>
            else
              (case transporter e of
                 None \<Rightarrow>
                   \<lparr>reply = Reply \<lparr>status = 503, ok = False,
                                     error = Some (js ''Email not configured''), fields_js = None\<rparr>,
                    sent = [], logged = [[warn_line]]\<rparr>
               | Some t \<Rightarrow>
                  (case compose e b of
                     None \<Rightarrow> rejected
                   | Some m \<Rightarrow>
                       (case sendMail t m of
                          None \<Rightarrow>
                            \<lparr>reply = Reply \<lparr>status = 200, ok = True, error = None,
                                              fields_js = None\<rparr>,
                             sent = [m], logged = []\<rparr>
                        | Some msg \<Rightarrow>
                            \<lparr>reply = Reply \<lparr>status = 500, ok = False,
                                              error = Some (js ''Failed to send email''),
                                              fields_js = None\<rparr>,
                             sent = [m], logged = [[js ''Email send error:'', msg]]\<rparr>))))"

section \<open>Notions of the specification\<close>

text \<open>
  A blank text holds only whitespace; the empty text is blank. A required field is
  missing when it is absent, \<open>null\<close>, or a blank string.
\<close>

definition blank :: "jstring \<Rightarrow> bool" where
  "blank s = list_all is_space s"

fun absent_or_blank :: "jsval \<Rightarrow> bool" where
  "absent_or_blank JUndefined = True"
| "absent_or_blank JNull = True"
| "absent_or_blank (JStr s) = blank s"
| "absent_or_blank _ = False"

text \<open>Example data: a well-formed English submission and a configured environment.\<close>

definition sample :: submission where
  "sample = \<lparr>name = JStr (js ''Dana Levi''), phone = JStr (js ''+1 (555) 123-4567''),
              caseType = JStr (js ''traffic''), email = JStr (js ''dana@example.com''),
              message = JStr (js ''Please call\<newline>me''), lang = JStr (js ''en'')\<rparr>"

definition configured :: env where
  "configured = \<lparr>SMTP_USER = None, SMTP_PASS = Some (js ''app-password'')\<rparr>"

text \<open>
  A valid submission, after the data model of the specification: name, phone and
  caseType are non-blank strings within their limits, the phone holds only characters of
  the phone class, and email and message are absent, \<open>null\<close> or strings within their
  limits. \<open>lang\<close> is free.
\<close>

fun required_text :: "nat \<Rightarrow> jsval \<Rightarrow> bool" where
  "required_text mx (JStr s) = (\<not> blank s \<and> length s \<le> mx)"
| "required_text mx _ = False"

fun optional_text :: "nat \<Rightarrow> jsval \<Rightarrow> bool" where
  "optional_text mx JUndefined = True"
| "optional_text mx JNull = True"
| "optional_text mx (JStr s) = (length s \<le> mx)"
| "optional_text mx _ = False"

definition valid_submission :: "submission \<Rightarrow> bool" where
  "valid_submission b =
     (required_text 200 (name b) \<and>
      required_text 30 (phone b) \<and> list_all phone_class (to_String (phone b)) \<and>
      required_text 100 (caseType b) \<and>
      optional_text 254 (email b) \<and>
      optional_text 5000 (message b))"

text \<open>
  The two languages of the mail, as the specification words them: a set of labels with a
  text direction, and one layout that both languages share.
\<close>

record labels =
  dir :: jstring
  subject_prefix :: jstring
  heading :: jstring
  label_name :: jstring
  label_phone :: jstring
  label_caseType :: jstring
  label_email :: jstring
  label_message :: jstring

definition hebrew :: labels where
  "hebrew = \<lparr>dir = js ''rtl'', subject_prefix = he_subject, heading = he_heading,
              label_name = he_name, label_phone = he_phone, label_caseType = he_caseType,
              label_email = he_email, label_message = he_message\<rparr>"

definition english :: labels where
  "english = \<lparr>dir = js ''ltr'', subject_prefix = js ''New Contact: '',
               heading = js ''New contact from Alon Pardo website'',
               label_name = js ''Name'', label_phone = js ''Phone'',
               label_caseType = js ''Case Type'', label_email = js ''Email'',
               label_message = js ''Message''\<rparr>"

definition labels_for :: "jsval \<Rightarrow> labels" where
  "labels_for l = (if l = JStr (js ''he'') then hebrew else english)"

definition layout ::
  "labels \<Rightarrow> jstring \<Rightarrow> jstring \<Rightarrow> jstring \<Rightarrow> jstring \<Rightarrow> jstring \<Rightarrow> jstring" where
  "layout L safeName safePhone safeCaseType safeEmail safeMessage =
     js ''\<newline>        <div dir=\"''
     @ dir L
     @ js ''\" style=\"font-family:sans-serif;max-width:600px;margin:0 auto\">\<newline>            <h2 style=\"color:#835e21\">''
     @ heading L
     @ js ''</h2>\<newline>            <table style=\"width:100%;border-collapse:collapse\">\<newline>                <tr><td style=\"padding:8px;font-weight:bold;border-bottom:1px solid #eee;width:30%\">''
     @ label_name L
     @ js ''</td><td style=\"padding:8px;border-bottom:1px solid #eee\">''
     @ safeName
     @ js ''</td></tr>\<newline>                <tr><td style=\"padding:8px;font-weight:bold;border-bottom:1px solid #eee\">''
     @ label_phone L
     @ js ''</td><td style=\"padding:8px;border-bottom:1px solid #eee\">''
     @ safePhone
     @ js ''</td></tr>\<newline>                <tr><td style=\"padding:8px;font-weight:bold;border-bottom:1px solid #eee\">''
     @ label_caseType L
     @ js ''</td><td style=\"padding:8px;border-bottom:1px solid #eee\">''
     @ safeCaseType
     @ js ''</td></tr>\<newline>                ''
     @ (if safeEmail \<noteq> []
        then js ''<tr><td style=\"padding:8px;font-weight:bold;border-bottom:1px solid #eee\">''
             @ label_email L
             @ js ''</td><td style=\"padding:8px;border-bottom:1px solid #eee\">''
             @ safeEmail
             @ js ''</td></tr>''
        else [])
     @ js ''\<newline>                <tr><td style=\"padding:8px;font-weight:bold;border-bottom:1px solid #eee;vertical-align:top\">''
     @ label_message L
     @ js ''</td><td style=\"padding:8px;border-bottom:1px solid #eee\">''
     @ safeMessage
     @ js ''</td></tr>\<newline>            </table>\<newline>        </div>''"

text \<open>Hebrew letters (alef to tav) and plain ASCII.\<close>

definition is_hebrew :: "code_unit \<Rightarrow> bool" where
  "is_hebrew c = (0x05D0 \<le> c \<and> c \<le> 0x05EA)"

definition is_ascii :: "code_unit \<Rightarrow> bool" where
  "is_ascii c = (c < 0x80)"

definition label_texts :: "labels \<Rightarrow> jstring list" where
  "label_texts L = [subject_prefix L, heading L, label_name L, label_phone L, label_caseType L,
                    label_email L, label_message L]"

text \<open>
  \<open>tag_safe s\<close>: no \<open><\<close> of \<open>s\<close> is followed by the letter s, and \<open>s\<close> does not end in
  \<open><\<close>; such a text holds no \<open><script\<close>. \<open>nl2br_escape\<close> is the message cell as the
  specification words it: each character escaped, each newline a line break.
\<close>

fun tag_safe :: "jstring \<Rightarrow> bool" where
  "tag_safe [] = True"
| "tag_safe [c] = (c \<noteq> lt)"
| "tag_safe (c # d # r) = ((c = lt \<longrightarrow> d \<noteq> 0x73) \<and> tag_safe (d # r))"

definition nl2br_escape :: "jstring \<Rightarrow> jstring" where
  "nl2br_escape s = concat (map (\<lambda>u. if u = nl then js ''<br>'' else entity u) s)"

section \<open>Properties of the escape helper\<close>

lemma replace_all_Nil: "replace_all c r [] = []"
  by (simp add: replace_all_def)

lemma replace_all_append:
  "replace_all c r (xs @ ys) = replace_all c r xs @ replace_all c r ys"
  by (simp add: replace_all_def)

lemma replace_all_Cons:
  "replace_all c r (x # xs) = (if x = c then r else [x]) @ replace_all c r xs"
  by (simp add: replace_all_def)

lemma replace_all_absent: "c \<notin> set s \<Longrightarrow> replace_all c r s = s"
  by (induction s) (auto simp: replace_all_def)

lemma entity_chars:
  "set (js ''&amp;'') = {0x26, 0x61, 0x6D, 0x70, 0x3B}"
  "set (js ''&lt;'') = {0x26, 0x6C, 0x74, 0x3B}"
  "set (js ''&gt;'') = {0x26, 0x67, 0x74, 0x3B}"
  "set (js ''&quot;'') = {0x26, 0x71, 0x75, 0x6F, 0x74, 0x3B}"
  by (auto simp: js_def)

lemma esc_step:
  "replace_all quot (js ''&quot;'') (replace_all gt (js ''&gt;'')
     (replace_all lt (js ''&lt;'') (replace_all amp (js ''&amp;'') (x # s)))) =
   entity x @
   replace_all quot (js ''&quot;'') (replace_all gt (js ''&gt;'')
     (replace_all lt (js ''&lt;'') (replace_all amp (js ''&amp;'') s)))"
proof -
  have keep_amp: "replace_all lt r1 (js ''&amp;'') = js ''&amp;''"
    "replace_all gt r2 (js ''&amp;'') = js ''&amp;''"
    "replace_all quot r3 (js ''&amp;'') = js ''&amp;''" for r1 r2 r3
    by (rule replace_all_absent, simp add: entity_chars lt_def gt_def quot_def)+
  have keep_lt: "replace_all gt r2 (js ''&lt;'') = js ''&lt;''"
    "replace_all quot r3 (js ''&lt;'') = js ''&lt;''" for r2 r3
    by (rule replace_all_absent, simp add: entity_chars gt_def quot_def)+
  have keep_gt: "replace_all quot r3 (js ''&gt;'') = js ''&gt;''" for r3
    by (rule replace_all_absent, simp add: entity_chars quot_def)
  have distinct: "amp \<noteq> lt" "amp \<noteq> gt" "amp \<noteq> quot" "lt \<noteq> gt" "lt \<noteq> quot" "gt \<noteq> quot"
    by (simp_all add: amp_def lt_def gt_def quot_def)
  show ?thesis
    using distinct
    by (simp add: replace_all_Cons replace_all_append replace_all_Nil entity_def
        keep_amp keep_lt keep_gt)
qed

lemma esc_html_escape: "esc (JStr s) = html_escape s"
proof (induction s)
  case Nil
  show ?case by (simp add: esc_def html_escape_def replace_all_Nil)
next
  case (Cons x s)
  then show ?case
    using esc_step [of x s] by (simp add: esc_def html_escape_def)
qed

lemma entity_clean: "lt \<notin> set (entity c)" "gt \<notin> set (entity c)" "quot \<notin> set (entity c)"
  by (simp_all add: entity_def entity_chars amp_def lt_def gt_def quot_def)

lemma html_escape_clean:
  "lt \<notin> set (html_escape s)" "gt \<notin> set (html_escape s)" "quot \<notin> set (html_escape s)"
  by (simp_all add: html_escape_def entity_clean)

text \<open>
  C10. For every input string the output of \<open>esc\<close> holds no \<open><\<close>, \<open>>\<close> or \<open>"\<close>, and it
  is the input with each \<open>&\<close>, \<open><\<close>, \<open>>\<close>, \<open>"\<close> replaced once by its entity: the four passes
  of the source never escape the \<open>&\<close> of an entity a later pass writes, because \<open>&\<close> is
  replaced first.
\<close>

theorem esc_no_markup:
  "lt \<notin> set (esc (JStr s)) \<and> gt \<notin> set (esc (JStr s)) \<and> quot \<notin> set (esc (JStr s)) \<and>
   esc (JStr s) = concat (map entity s)"
  using html_escape_clean [of s] by (simp add: esc_html_escape) (simp add: html_escape_def)

theorem esc_no_markup_witness:
  "esc (JStr (js ''<a href=\"x\">&lt;'')) = js ''&lt;a href=&quot;x&quot;&gt;&amp;lt;'' \<and>
   lt \<notin> set (esc (JStr (js ''<a href=\"x\">&lt;'')))"
  using esc_no_markup [of "js ''<a href=\"x\">&lt;''"]
  by (simp add: entity_def js_def amp_def lt_def gt_def quot_def)

section \<open>Presence check\<close>

lemma dropWhile_all: "(\<forall>x\<in>set (dropWhile P s). P x) \<longleftrightarrow> dropWhile P s = []"
proof
  assume all: "\<forall>x\<in>set (dropWhile P s). P x"
  show "dropWhile P s = []"
  proof (rule ccontr)
    assume ne: "dropWhile P s \<noteq> []"
    then have "hd (dropWhile P s) \<in> set (dropWhile P s)" by (rule hd_in_set)
    with all have "P (hd (dropWhile P s))" by blast
    with hd_dropWhile [OF ne] show False by blast
  qed
next
  assume "dropWhile P s = []"
  then show "\<forall>x\<in>set (dropWhile P s). P x" by (auto dest: set_dropWhileD)
qed

lemma trim_Nil_iff: "trim s = [] \<longleftrightarrow> list_all is_space s"
proof -
  have "trim s = [] \<longleftrightarrow> (\<forall>x\<in>set (dropWhile is_space s). is_space x)"
    by (simp add: trim_def dropWhile_eq_Nil_conv)
  also have "\<dots> \<longleftrightarrow> dropWhile is_space s = []"
    by (rule dropWhile_all)
  also have "\<dots> \<longleftrightarrow> list_all is_space s"
    by (simp add: dropWhile_eq_Nil_conv list_all_iff)
  finally show ?thesis .
qed

lemma digit_char: "n < 10 \<Longrightarrow> is_digit (0x30 + of_nat n)"
proof -
  assume "n < 10"
  then have "n \<in> {0, 1, 2, 3, 4, 5, 6, 7, 8, 9}" by auto
  then show ?thesis by (auto simp: is_digit_def)
qed

lemma digits_nonempty: "digits n \<noteq> []"
  by (subst digits.simps) simp

lemma digits_are_digits: "c \<in> set (digits n) \<Longrightarrow> is_digit c"
proof (induction n arbitrary: c rule: digits.induct)
  case (1 n)
  show ?case
  proof (cases "n < 10")
    case True
    with "1.prems" show ?thesis
      by (subst (asm) digits.simps) (simp add: digit_char)
  next
    case False
    with "1.prems" "1.IH" show ?thesis
      by (subst (asm) digits.simps) (auto simp: digit_char)
  qed
qed

lemma digit_not_space: "is_digit c \<Longrightarrow> \<not> is_space c"
  by (auto simp: is_digit_def is_space_def WhiteSpace_def LineTerminator_def)

lemma digits_not_blank: "\<not> list_all is_space (digits n)"
proof -
  obtain c cs where "digits n = c # cs"
    using digits_nonempty [of n] by (cases "digits n") auto
  moreover from this have "is_digit c"
    using digits_are_digits [of c n] by simp
  ultimately show ?thesis
    by (simp add: digit_not_space)
qed

lemma missing_test: "(loose_null v \<or> trim (to_String v) = []) = absent_or_blank v"
proof (cases v)
  case (JBool b)
  then show ?thesis
    by (simp add: trim_Nil_iff js_def is_space_def WhiteSpace_def LineTerminator_def)
next
  case (JNum n)
  then show ?thesis
    using digits_not_blank
    by (simp add: trim_Nil_iff js_def is_space_def WhiteSpace_def LineTerminator_def)
qed (simp_all add: trim_Nil_iff blank_def)

lemma missing_eq:
  "missing b =
     (if absent_or_blank (name b) then [js ''name''] else []) @
     (if absent_or_blank (phone b) then [js ''phone''] else []) @
     (if absent_or_blank (caseType b) then [js ''caseType''] else [])"
  by (simp add: missing_def required_def missing_test)



section \<open>Length check\<close>

lemma falsy_short: "\<not> truthy v \<Longrightarrow> length (to_String v) \<le> 9"
  by (cases v) (simp_all add: js_def digits.simps)

lemma length_loop_find:
  assumes "\<forall>(k, m)\<in>set ls. 9 \<le> m"
  shows "length_loop (Some b) ls =
           (case find (\<lambda>(k, m). length (to_String (property b k)) > m) ls of
              None \<Rightarrow> Pass
            | Some (g, m) \<Rightarrow>
                Fail \<lparr>status = 400, ok = False,
                      error = Some (g @ js '' exceeds maximum length of '' @ digits m),
                      fields_js = None\<rparr>)"
  using assms
proof (induction ls)
  case Nil
  show ?case by simp
next
  case (Cons a ls)
  obtain k m where a: "a = (k, m)" by (cases a)
  with Cons.prems have "9 \<le> m" by simp
  then have "(truthy (property b k) \<and> length (to_String (property b k)) > m) =
             (length (to_String (property b k)) > m)"
    using falsy_short [of "property b k"] by (cases "truthy (property b k)") simp_all
  with Cons a show ?case by simp
qed

lemma limits_ge: "\<forall>(k, m)\<in>set limits. 9 \<le> m"
  by (simp add: limits_def)



lemma digits_limits:
  "digits 200 = js ''200''" "digits 30 = js ''30''" "digits 100 = js ''100''"
  "digits 254 = js ''254''" "digits 5000 = js ''5000''"
  by (simp_all add: digits.simps js_def)


section \<open>Phone format check\<close>

lemma present_nonempty:
  assumes "missing b = []"
  shows "to_String (name b) \<noteq> []" "to_String (phone b) \<noteq> []" "to_String (caseType b) \<noteq> []"
proof -
  from assms have "\<not> absent_or_blank (name b)" "\<not> absent_or_blank (phone b)"
    "\<not> absent_or_blank (caseType b)"
    by (auto simp: missing_eq split: if_splits)
  then have "trim (to_String (name b)) \<noteq> []" "trim (to_String (phone b)) \<noteq> []"
    "trim (to_String (caseType b)) \<noteq> []"
    using missing_test by blast+
  then show "to_String (name b) \<noteq> []" "to_String (phone b) \<noteq> []"
    "to_String (caseType b) \<noteq> []"
    by (auto simp: trim_def)
qed




section \<open>Transport availability\<close>



section \<open>Order of the checks\<close>



section \<open>Delivery\<close>

lemma required_text_present:
  "required_text mx v \<Longrightarrow> \<not> absent_or_blank v"
  by (cases v) simp_all

lemma required_text_length:
  "required_text mx v \<Longrightarrow> length (to_String v) \<le> mx"
  by (cases v) simp_all

lemma optional_text_length:
  "optional_text mx v \<Longrightarrow> 9 \<le> mx \<Longrightarrow> length (to_String v) \<le> mx"
  by (cases v) (simp_all add: js_def)

lemma required_text_trim: "required_text mx v \<Longrightarrow> \<exists>s. v = JStr s"
  by (cases v) simp_all

lemma valid_missing: "valid_submission b \<Longrightarrow> missing b = []"
  by (auto simp: valid_submission_def missing_eq dest: required_text_present)

lemma valid_lengths: 
  assumes "valid_submission b"
  shows "length_loop (Some b) limits = Pass"
proof -
  from assms have
    "length (to_String (name b)) \<le> 200" "length (to_String (phone b)) \<le> 30"
    "length (to_String (caseType b)) \<le> 100" "length (to_String (email b)) \<le> 254"
    "length (to_String (message b)) \<le> 5000"
    by (simp_all add: valid_submission_def required_text_length optional_text_length)
  then have "find (\<lambda>(k, m). length (to_String (property b k)) > m) limits = None"
    by (simp add: limits_def property_def js_def)
  then show ?thesis
    by (simp add: length_loop_find [OF limits_ge])
qed

lemma valid_phone: 
  assumes "valid_submission b"
  shows "phone_test (phone b)"
proof -
  from assms have "missing b = []" by (rule valid_missing)
  then have "to_String (phone b) \<noteq> []" by (rule present_nonempty(2))
  with assms show ?thesis
    by (simp add: phone_test_def valid_submission_def)
qed

lemma valid_compose:
  assumes "valid_submission b"
  shows "\<exists>m. compose e b = Some m"
proof -
  from assms obtain n p c where "name b = JStr n" "phone b = JStr p" "caseType b = JStr c"
    unfolding valid_submission_def using required_text_trim by blast
  moreover from assms have "optional_text 254 (email b)" "optional_text 5000 (message b)"
    by (simp_all add: valid_submission_def)
  ultimately show ?thesis
    by (cases "email b"; cases "message b") (simp_all add: compose_def nullish_or_def Let_def)
qed

lemma sent_reply:
  assumes "sent (contact_handler e sendMail body) = [m]" and "transporter e = Some t"
  shows "contact_handler e sendMail body =
           (case sendMail t m of
              None \<Rightarrow>
                \<lparr>reply = Reply \<lparr>status = 200, ok = True, error = None, fields_js = None\<rparr>,
                 sent = [m], logged = []\<rparr>
            | Some msg \<Rightarrow>
                \<lparr>reply = Reply \<lparr>status = 500, ok = False,
                                  error = Some (js ''Failed to send email''),
                                  fields_js = None\<rparr>,
                 sent = [m], logged = [[js ''Email send error:'', msg]]\<rparr>)"
  using assms
  by (auto simp: contact_handler_def respond_def rejected_def Let_def
      split: if_splits check.splits option.splits)

lemma valid_sent:
  assumes "valid_submission b" and "transporter e = Some t"
  shows "\<exists>m. compose e b = Some m \<and> sent (contact_handler e sendMail (Some b)) = [m]"
proof -
  from assms(1) obtain m where m: "compose e b = Some m"
    using valid_compose by blast
  from assms(1) have "missing (destructure (Some b)) = []"
    "length_loop (Some b) limits = Pass" "phone_test (phone (destructure (Some b)))"
    by (simp_all add: destructure_def valid_missing valid_lengths valid_phone)
  with m assms(2) show ?thesis
    by (simp add: contact_handler_def destructure_def split: option.splits)
qed

text \<open>
  C5. With the transport configured, a valid submission makes the handler compose one
  mail and hand it to the transport; and whenever a mail is handed over, the reply is 200
  with body exactly \<open>{ok: true}\<close> if the send succeeds, and 500 with the fixed text
  "Failed to send email" if it fails, whatever the error of the transport says (the
  error text goes to the console only).
\<close>

theorem valid_submission_delivery:
  assumes "transporter e = Some t"
  shows "(valid_submission b \<longrightarrow>
            (\<exists>m. compose e b = Some m \<and> sent (contact_handler e sendMail (Some b)) = [m])) \<and>
         (\<forall>body m. sent (contact_handler e sendMail body) = [m] \<longrightarrow>
            contact_handler e sendMail body =
              (case sendMail t m of
                 None \<Rightarrow>
                   \<lparr>reply = Reply \<lparr>status = 200, ok = True, error = None, fields_js = None\<rparr>,
                    sent = [m], logged = []\<rparr>
               | Some msg \<Rightarrow>
                   \<lparr>reply = Reply \<lparr>status = 500, ok = False,
                                     error = Some (js ''Failed to send email''),
                                     fields_js = None\<rparr>,
                    sent = [m], logged = [[js ''Email send error:'', msg]]\<rparr>))"
  using valid_sent [OF _ assms] sent_reply [OF _ assms] by blast

theorem valid_submission_delivery_witness:
  "\<exists>m. compose configured sample = Some m \<and>
       contact_handler configured (\<lambda>t m. None) (Some sample) =
         \<lparr>reply = Reply \<lparr>status = 200, ok = True, error = None, fields_js = None\<rparr>,
          sent = [m], logged = []\<rparr> \<and>
       contact_handler configured (\<lambda>t m. Some (js ''connect ECONNREFUSED'')) (Some sample) =
         \<lparr>reply = Reply \<lparr>status = 500, ok = False, error = Some (js ''Failed to send email''),
                            fields_js = None\<rparr>,
          sent = [m], logged = [[js ''Email send error:'', js ''connect ECONNREFUSED'']]\<rparr>"
proof -
  have v: "valid_submission sample" by code_simp
  have t: "transporter configured =
             Some \<lparr>service = js ''gmail'', auth_user = js ''pardooren@gmail.com'',
                    auth_pass = js ''app-password''\<rparr>"
    by code_simp
  note ok = valid_submission_delivery [OF t, of sample "\<lambda>t m. None"]
  note ko = valid_submission_delivery [OF t, of sample "\<lambda>t m. Some (js ''connect ECONNREFUSED'')"]
  from ok v obtain m where m: "compose configured sample = Some m"
    "sent (contact_handler configured (\<lambda>t m. None) (Some sample)) = [m]" by blast
  from ko v m(1) have m2:
    "sent (contact_handler configured (\<lambda>t m. Some (js ''connect ECONNREFUSED'')) (Some sample)) = [m]"
    by auto
  from ok m(2) have r1: "contact_handler configured (\<lambda>t m. None) (Some sample) =
         \<lparr>reply = Reply \<lparr>status = 200, ok = True, error = None, fields_js = None\<rparr>,
          sent = [m], logged = []\<rparr>"
    by auto
  from ko m2 have r2:
    "contact_handler configured (\<lambda>t m. Some (js ''connect ECONNREFUSED'')) (Some sample) =
         \<lparr>reply = Reply \<lparr>status = 500, ok = False, error = Some (js ''Failed to send email''),
                            fields_js = None\<rparr>,
          sent = [m], logged = [[js ''Email send error:'', js ''connect ECONNREFUSED'']]\<rparr>"
    by auto
  from m(1) r1 r2 show ?thesis by blast
qed

text \<open>A required field that is not a string passes the three checks and then throws.\<close>

lemma non_string_unhandled:
  "contact_handler configured (\<lambda>t m. None) (Some (sample\<lparr>name := JBool True\<rparr>)) = rejected"
  by code_simp

section \<open>Rendering\<close>

lemma html_body_layout:
  "html_body isHe sn sp sc se sm = layout (if isHe then hebrew else english) sn sp sc se sm"
  by (simp add: html_body_def layout_def hebrew_def english_def)

lemma subject_line_layout:
  "subject_line isHe sn sc = subject_prefix (if isHe then hebrew else english) @ sn @ dash @ sc"
  by (simp add: subject_line_def hebrew_def english_def)

lemma call_trim_Some: "call_trim v = Some x \<longleftrightarrow> (\<exists>s. v = JStr s \<and> x = trim s)"
  by (cases v) auto

lemma trim_Nil: "trim [] = []"
  by (simp add: trim_def)

lemma esc_Nil: "esc (JStr []) = []"
  by (simp add: esc_def replace_all_Nil)

lemma compose_Some:
  assumes "compose e b = Some m"
  shows "\<exists>n p c em msg.
           name b = JStr n \<and> phone b = JStr p \<and> caseType b = JStr c \<and>
           (if truthy (email b) then email b = JStr em else em = []) \<and>
           (if loose_null (message b) then msg = [] else message b = JStr msg) \<and>
           m = \<lparr>from_hdr = js ''\"Alon Pardo Website\" <''
                            @ env_or (SMTP_USER e) (js ''pardooren@gmail.com'') @ js ''>'',
                 to_hdr = js ''pardooren@gmail.com'',
                 subject = subject_line (lang b = JStr (js ''he''))
                             (esc (JStr (trim n))) (esc (JStr (trim c))),
                 html = html_body (lang b = JStr (js ''he''))
                          (esc (JStr (trim n))) (esc (JStr (trim p))) (esc (JStr (trim c)))
                          (esc (JStr (trim em)))
                          (replace_all nl (js ''<br>'') (esc (JStr (trim msg))))\<rparr>"
proof -
  from assms obtain x1 x2 x3 se x5 where
    c1: "call_trim (name b) = Some x1" and c2: "call_trim (phone b) = Some x2" and
    c3: "call_trim (caseType b) = Some x3" and
    c4: "(if truthy (email b) then map_option (\<lambda>t. esc (JStr t)) (call_trim (email b))
          else Some []) = Some se" and
    c5: "call_trim (nullish_or (message b) (JStr [])) = Some x5" and
    m: "m = \<lparr>from_hdr = js ''\"Alon Pardo Website\" <''
                            @ env_or (SMTP_USER e) (js ''pardooren@gmail.com'') @ js ''>'',
                 to_hdr = js ''pardooren@gmail.com'',
                 subject = subject_line (lang b = JStr (js ''he'')) (esc (JStr x1)) (esc (JStr x3)),
                 html = html_body (lang b = JStr (js ''he'')) (esc (JStr x1)) (esc (JStr x2))
                          (esc (JStr x3)) se (replace_all nl (js ''<br>'') (esc (JStr x5)))\<rparr>"
    unfolding compose_def Let_def by (auto split: Option.bind_splits)
  from c1 obtain n where n: "name b = JStr n" "x1 = trim n" by (auto simp: call_trim_Some)
  from c2 obtain p where p: "phone b = JStr p" "x2 = trim p" by (auto simp: call_trim_Some)
  from c3 obtain c where c: "caseType b = JStr c" "x3 = trim c" by (auto simp: call_trim_Some)
  from c4 obtain em where em: "if truthy (email b) then email b = JStr em else em = []"
    "se = esc (JStr (trim em))"
    by (cases "truthy (email b)") (auto simp: call_trim_Some trim_Nil esc_Nil)
  from c5 obtain msg where msg: "if loose_null (message b) then msg = [] else message b = JStr msg"
    "x5 = trim msg"
    by (cases "loose_null (message b)") (auto simp: call_trim_Some nullish_or_def trim_Nil)
  from n p c em msg m show ?thesis by blast
qed

lemma compose_lang:
  assumes "compose e b = Some m"
  shows "\<exists>sn sp sc se sm. \<forall>l.
           compose e (b\<lparr>lang := l\<rparr>) =
             Some (m\<lparr>subject := subject_prefix (labels_for l) @ sn @ dash @ sc,
                     html := layout (labels_for l) sn sp sc se sm\<rparr>)"
proof -
  from compose_Some [OF assms] obtain n p c em msg where
    f: "name b = JStr n" "phone b = JStr p" "caseType b = JStr c"
       "if truthy (email b) then email b = JStr em else em = []"
       "if loose_null (message b) then msg = [] else message b = JStr msg" and
    m: "from_hdr m = js ''\"Alon Pardo Website\" <''
                            @ env_or (SMTP_USER e) (js ''pardooren@gmail.com'') @ js ''>''"
       "to_hdr m = js ''pardooren@gmail.com''" "mail.more m = ()"
    by auto
  have "compose e (b\<lparr>lang := l\<rparr>) =
          Some (m\<lparr>subject := subject_prefix (labels_for l) @ esc (JStr (trim n)) @ dash
                                    @ esc (JStr (trim c)),
                  html := layout (labels_for l) (esc (JStr (trim n))) (esc (JStr (trim p)))
                            (esc (JStr (trim c))) (esc (JStr (trim em)))
                            (replace_all nl (js ''<br>'') (esc (JStr (trim msg))))\<rparr>)" for l
    using f m
    by (cases "truthy (email b)"; cases "loose_null (message b)")
       (simp_all add: compose_def Let_def nullish_or_def trim_Nil esc_Nil
          html_body_layout subject_line_layout labels_for_def)
  then show ?thesis by blast
qed

lemma tag_safe_append: "tag_safe xs \<Longrightarrow> tag_safe ys \<Longrightarrow> tag_safe (xs @ ys)"
proof (induction xs rule: tag_safe.induct)
  case 1
  then show ?case by simp
next
  case (2 c)
  then show ?case by (cases ys) simp_all
next
  case (3 c d r)
  then show ?case by simp
qed

lemma tag_safe_no_lt: "lt \<notin> set xs \<Longrightarrow> tag_safe xs"
  by (induction xs rule: tag_safe.induct) auto

lemma tag_safe_concat: "(\<And>x. x \<in> set xss \<Longrightarrow> tag_safe x) \<Longrightarrow> tag_safe (concat xss)"
  by (induction xss) (simp_all add: tag_safe_append)

lemma tag_safe_script: "\<not> tag_safe (ps @ lt # 0x73 # zs)"
proof (induction ps rule: tag_safe.induct)
  case 1
  show ?case by simp
next
  case (2 c)
  show ?case by simp
next
  case (3 c d r)
  then show ?case by simp
qed

lemma tag_safe_not_sublist:
  assumes "tag_safe xs"
  shows "\<not> sublist (js ''<script>'') xs"
proof
  assume "sublist (js ''<script>'') xs"
  then obtain ps ss where "xs = ps @ js ''<script>'' @ ss"
    by (auto simp: sublist_def)
  then have "xs = ps @ lt # 0x73 # (js ''cript>'' @ ss)"
    by (simp add: js_def lt_def)
  with assms tag_safe_script show False by simp
qed

lemma nl_entity: "replace_all nl r (entity u) = (if u = nl then r else entity u)"
proof -
  have "nl \<notin> set (entity u)" if "u \<noteq> nl"
    using that by (simp add: entity_def entity_chars nl_def)
  then show ?thesis
    by (auto simp: replace_all_absent)
       (simp add: entity_def replace_all_def nl_def amp_def lt_def gt_def quot_def)
qed

lemma nl2br_html_escape: "replace_all nl (js ''<br>'') (html_escape s) = nl2br_escape s"
  by (induction s)
     (simp_all add: html_escape_def nl2br_escape_def replace_all_Nil replace_all_append nl_entity)

lemma tag_safe_html_escape: "tag_safe (html_escape s)"
  by (rule tag_safe_no_lt) (rule html_escape_clean)

lemma tag_safe_entity: "tag_safe (entity u)"
  by (rule tag_safe_no_lt) (rule entity_clean)

lemma tag_safe_nl2br: "tag_safe (nl2br_escape s)"
proof -
  have br: "tag_safe (js ''<br>'')" by (simp add: js_def lt_def)
  show ?thesis
    unfolding nl2br_escape_def
    by (rule tag_safe_concat) (auto simp: br tag_safe_entity)
qed

lemma tag_safe_labels:
  "tag_safe (dir (if isHe then hebrew else english))"
  "tag_safe (heading (if isHe then hebrew else english))"
  "tag_safe (label_name (if isHe then hebrew else english))"
  "tag_safe (label_phone (if isHe then hebrew else english))"
  "tag_safe (label_caseType (if isHe then hebrew else english))"
  "tag_safe (label_email (if isHe then hebrew else english))"
  "tag_safe (label_message (if isHe then hebrew else english))"
  by (simp_all add: hebrew_def english_def js_def lt_def he_heading_def he_name_def
      he_phone_def he_caseType_def he_email_def he_message_def)

lemma tag_safe_layout:
  assumes "tag_safe sn" "tag_safe sp" "tag_safe sc" "tag_safe se" "tag_safe sm"
    and L: "tag_safe (dir L)" "tag_safe (heading L)" "tag_safe (label_name L)"
      "tag_safe (label_phone L)" "tag_safe (label_caseType L)" "tag_safe (label_email L)"
      "tag_safe (label_message L)"
  shows "tag_safe (layout L sn sp sc se sm)"
proof -
  have lits:
    "tag_safe (js ''\<newline>        <div dir=\"'')"
    "tag_safe (js ''\" style=\"font-family:sans-serif;max-width:600px;margin:0 auto\">\<newline>            <h2 style=\"color:#835e21\">'')"
    "tag_safe (js ''</h2>\<newline>            <table style=\"width:100%;border-collapse:collapse\">\<newline>                <tr><td style=\"padding:8px;font-weight:bold;border-bottom:1px solid #eee;width:30%\">'')"
    "tag_safe (js ''</td><td style=\"padding:8px;border-bottom:1px solid #eee\">'')"
    "tag_safe (js ''</td></tr>\<newline>                <tr><td style=\"padding:8px;font-weight:bold;border-bottom:1px solid #eee\">'')"
    "tag_safe (js ''</td></tr>\<newline>                '')"
    "tag_safe (js ''<tr><td style=\"padding:8px;font-weight:bold;border-bottom:1px solid #eee\">'')"
    "tag_safe (js ''</td></tr>'')"
    "tag_safe (js ''\<newline>                <tr><td style=\"padding:8px;font-weight:bold;border-bottom:1px solid #eee;vertical-align:top\">'')"
    "tag_safe (js ''</td></tr>\<newline>            </table>\<newline>        </div>'')"
    by code_simp+
  show ?thesis
    unfolding layout_def
    by (intro tag_safe_append lits assms) (simp add: tag_safe_append lits assms)
qed

lemma sublist_skip: "sublist xs ys \<Longrightarrow> sublist xs (zs @ ys)"
  unfolding sublist_def by (metis append_assoc)

lemma sent_compose:
  assumes "sent (contact_handler e sendMail body) = [m]"
  shows "compose e (destructure body) = Some m"
  using assms
  by (auto simp: contact_handler_def respond_def rejected_def Let_def
      split: if_splits check.splits option.splits)

text \<open>
  C1. Whenever the handler hands a mail to the transport, name, phone and caseType are
  strings, email is a string or falsy, message is a string or nullish, and the HTML body
  is the template filled with these values trimmed and escaped character by character
  (\<open>&\<close>, \<open><\<close>, \<open>>\<close>, \<open>"\<close> replaced by their entities); in the message cell the newlines
  become \<open><br>\<close> after the escaping, so the breaks themselves stay markup. The body never
  holds \<open><script>\<close>, and for the name \<open><script>\<close> it holds \<open>&lt;script&gt;\<close>.
\<close>

theorem user_strings_escaped:
  assumes "sent (contact_handler e sendMail body) = [m]"
  shows "\<exists>n p c em msg.
           name (destructure body) = JStr n \<and>
           phone (destructure body) = JStr p \<and>
           caseType (destructure body) = JStr c \<and>
           (if truthy (email (destructure body)) then email (destructure body) = JStr em
            else em = []) \<and>
           (if loose_null (message (destructure body)) then msg = []
            else message (destructure body) = JStr msg) \<and>
           html m = html_body (lang (destructure body) = JStr (js ''he''))
                      (html_escape (trim n)) (html_escape (trim p)) (html_escape (trim c))
                      (html_escape (trim em)) (nl2br_escape (trim msg)) \<and>
           \<not> sublist (js ''<script>'') (html m) \<and>
           (n = js ''<script>'' \<longrightarrow> sublist (js ''&lt;script&gt;'') (html m))"
proof -
  let ?b = "destructure body"
  let ?he = "lang ?b = JStr (js ''he'')"
  from assms have "compose e ?b = Some m" by (rule sent_compose)
  from compose_Some [OF this] obtain n p c em msg where
    f: "name ?b = JStr n" "phone ?b = JStr p" "caseType ?b = JStr c"
       "if truthy (email ?b) then email ?b = JStr em else em = []"
       "if loose_null (message ?b) then msg = [] else message ?b = JStr msg" and
    h: "html m = html_body ?he (html_escape (trim n)) (html_escape (trim p))
                   (html_escape (trim c)) (html_escape (trim em)) (nl2br_escape (trim msg))"
    by (auto simp: esc_html_escape nl2br_html_escape)
  have "tag_safe (html m)"
    unfolding h html_body_layout
    by (intro tag_safe_layout tag_safe_html_escape tag_safe_nl2br tag_safe_labels)
  then have no_script: "\<not> sublist (js ''<script>'') (html m)"
    by (rule tag_safe_not_sublist)
  have "sublist (html_escape (trim n)) (html m)"
    unfolding h html_body_def
    by (rule sublist_skip, rule sublist_skip, rule sublist_skip, rule sublist_skip,
        rule sublist_skip, rule sublist_skip, rule sublist_skip, rule sublist_append_rightI)
  moreover have "html_escape (trim (js ''<script>'')) = js ''&lt;script&gt;''"
    by code_simp
  ultimately have "n = js ''<script>'' \<longrightarrow> sublist (js ''&lt;script&gt;'') (html m)"
    by auto
  with f h no_script show ?thesis by blast
qed

theorem user_strings_escaped_witness:
  "\<exists>m. sent (contact_handler configured (\<lambda>t m. None)
               (Some (sample\<lparr>name := JStr (js ''<script>'')\<rparr>))) = [m] \<and>
       sublist (js ''&lt;script&gt;'') (html m) \<and>
       \<not> sublist (js ''<script>'') (html m)"
proof -
  let ?body = "Some (sample\<lparr>name := JStr (js ''<script>'')\<rparr>)"
  let ?m = "the (compose configured (sample\<lparr>name := JStr (js ''<script>'')\<rparr>))"
  have s: "sent (contact_handler configured (\<lambda>t m. None) ?body) = [?m]"
    by code_simp
  have n: "name (destructure ?body) = JStr (js ''<script>'')"
    by (simp add: destructure_def)
  from user_strings_escaped [OF s] n
  have "sublist (js ''&lt;script&gt;'') (html ?m) \<and> \<not> sublist (js ''<script>'') (html ?m)"
    by auto
  with s show ?thesis by blast
qed

section \<open>Language of the mail\<close>

lemma layout_prefix:
  "prefix (js ''\<newline>        <div dir=\"'' @ dir L @ js ''\"'') (layout L sn sp sc se sm)"
  by (simp add: layout_def js_def)

lemma property_lang: "k \<noteq> js ''lang'' \<Longrightarrow> property (b\<lparr>lang := l\<rparr>) k = property b k"
  by (simp add: property_def)

lemma length_loop_lang:
  "js ''lang'' \<notin> fst ` set ls \<Longrightarrow>
   length_loop (Some (b\<lparr>lang := l\<rparr>)) ls = length_loop (Some b) ls"
  by (induction ls) (auto simp: property_lang)

lemma limits_no_lang: "js ''lang'' \<notin> fst ` set limits"
  by (simp add: limits_def js_def)

lemma missing_lang: "missing (b\<lparr>lang := l\<rparr>) = missing b"
  by (simp add: missing_def required_def)

lemma sent_iff:
  "sent (contact_handler e sendMail body) = [m] \<longleftrightarrow>
     missing (destructure body) = [] \<and> length_loop body limits = Pass \<and>
     phone_test (phone (destructure body)) \<and> transporter e \<noteq> None \<and>
     compose e (destructure body) = Some m"
  by (auto simp: contact_handler_def respond_def rejected_def Let_def
      split: if_splits check.splits option.splits)

text \<open>
  C8. For a submission whose mail the handler hands to the transport there are five cell
  texts such that, for every value of \<open>lang\<close>, the mail handed over is the shared layout
  filled with these cells and the labels of the language: the Hebrew labels with
  \<open>dir="rtl"\<close> when \<open>lang\<close> is the string he, the English labels with \<open>dir="ltr"\<close> for any
  other value, absent included. Sender and recipient do not depend on \<open>lang\<close>, and
  neither does any of the checks before.
\<close>

theorem language_switch:
  assumes "sent (contact_handler e sendMail (Some b)) = [m]"
  shows "(\<exists>sn sp sc se sm. \<forall>l.
            sent (contact_handler e sendMail (Some (b\<lparr>lang := l\<rparr>))) =
              [m\<lparr>subject := subject_prefix (labels_for l) @ sn @ dash @ sc,
                 html := layout (labels_for l) sn sp sc se sm\<rparr>] \<and>
            prefix (js ''\<newline>        <div dir=\"'' @ dir (labels_for l) @ js ''\"'')
              (layout (labels_for l) sn sp sc se sm)) \<and>
         labels_for (JStr (js ''he'')) = hebrew \<and>
         (\<forall>l. l \<noteq> JStr (js ''he'') \<longrightarrow> labels_for l = english) \<and>
         dir hebrew = js ''rtl'' \<and> dir english = js ''ltr'' \<and>
         list_all (\<lambda>t. list_ex is_hebrew t \<and> list_all (\<lambda>c. is_hebrew c \<or> c = 0x20 \<or> c = 0x3A) t)
           (label_texts hebrew) \<and>
         list_all (list_all is_ascii) (label_texts english)"
proof -
  from assms have checks: "missing b = []" "length_loop (Some b) limits = Pass"
    "phone_test (phone b)" "transporter e \<noteq> None" and m: "compose e b = Some m"
    by (simp_all add: sent_iff destructure_def)
  from compose_lang [OF m] obtain sn sp sc se sm where
    c: "\<And>l. compose e (b\<lparr>lang := l\<rparr>) =
            Some (m\<lparr>subject := subject_prefix (labels_for l) @ sn @ dash @ sc,
                    html := layout (labels_for l) sn sp sc se sm\<rparr>)"
    by blast
  have "sent (contact_handler e sendMail (Some (b\<lparr>lang := l\<rparr>))) =
          [m\<lparr>subject := subject_prefix (labels_for l) @ sn @ dash @ sc,
             html := layout (labels_for l) sn sp sc se sm\<rparr>]" for l
    using checks c [of l]
    by (simp add: sent_iff destructure_def missing_lang length_loop_lang [OF limits_no_lang])
  then have first: "\<exists>sn sp sc se sm. \<forall>l.
            sent (contact_handler e sendMail (Some (b\<lparr>lang := l\<rparr>))) =
              [m\<lparr>subject := subject_prefix (labels_for l) @ sn @ dash @ sc,
                 html := layout (labels_for l) sn sp sc se sm\<rparr>] \<and>
            prefix (js ''\<newline>        <div dir=\"'' @ dir (labels_for l) @ js ''\"'')
              (layout (labels_for l) sn sp sc se sm)"
    using layout_prefix by blast
  have he: "list_all (\<lambda>t. list_ex is_hebrew t \<and>
                        list_all (\<lambda>c. is_hebrew c \<or> c = 0x20 \<or> c = 0x3A) t)
              (label_texts hebrew)"
    by code_simp
  have en: "list_all (list_all is_ascii) (label_texts english)"
    by code_simp
  have sel: "labels_for (JStr (js ''he'')) = hebrew"
    "\<forall>l. l \<noteq> JStr (js ''he'') \<longrightarrow> labels_for l = english"
    "dir hebrew = js ''rtl''" "dir english = js ''ltr''"
    by (simp_all add: labels_for_def hebrew_def english_def)
  from first he en sel show ?thesis by blast
qed

theorem language_switch_witness:
  "\<exists>m sn sp sc se sm.
     sent (contact_handler configured (\<lambda>t m. None) (Some sample)) = [m] \<and>
     sent (contact_handler configured (\<lambda>t m. None) (Some (sample\<lparr>lang := JStr (js ''he'')\<rparr>))) =
       [m\<lparr>subject := he_subject @ sn @ dash @ sc, html := layout hebrew sn sp sc se sm\<rparr>] \<and>
     sent (contact_handler configured (\<lambda>t m. None) (Some (sample\<lparr>lang := JUndefined\<rparr>))) =
       [m\<lparr>subject := js ''New Contact: '' @ sn @ dash @ sc,
          html := layout english sn sp sc se sm\<rparr>]"
proof -
  let ?m = "the (compose configured sample)"
  have m: "sent (contact_handler configured (\<lambda>t m. None) (Some sample)) = [?m]"
    by code_simp
  from language_switch [OF m] obtain sn sp sc se sm where
    "\<forall>l. sent (contact_handler configured (\<lambda>t m. None) (Some (sample\<lparr>lang := l\<rparr>))) =
            [?m\<lparr>subject := subject_prefix (labels_for l) @ sn @ dash @ sc,
                html := layout (labels_for l) sn sp sc se sm\<rparr>]"
    by blast
  then have
    "sent (contact_handler configured (\<lambda>t m. None) (Some (sample\<lparr>lang := JStr (js ''he'')\<rparr>))) =
       [?m\<lparr>subject := subject_prefix (labels_for (JStr (js ''he''))) @ sn @ dash @ sc,
           html := layout (labels_for (JStr (js ''he''))) sn sp sc se sm\<rparr>]"
    "sent (contact_handler configured (\<lambda>t m. None) (Some (sample\<lparr>lang := JUndefined\<rparr>))) =
       [?m\<lparr>subject := subject_prefix (labels_for JUndefined) @ sn @ dash @ sc,
           html := layout (labels_for JUndefined) sn sp sc se sm\<rparr>]"
    by blast+
  then have
    "sent (contact_handler configured (\<lambda>t m. None) (Some (sample\<lparr>lang := JStr (js ''he'')\<rparr>))) =
       [?m\<lparr>subject := he_subject @ sn @ dash @ sc, html := layout hebrew sn sp sc se sm\<rparr>]"
    "sent (contact_handler configured (\<lambda>t m. None) (Some (sample\<lparr>lang := JUndefined\<rparr>))) =
       [?m\<lparr>subject := js ''New Contact: '' @ sn @ dash @ sc,
           html := layout english sn sp sc se sm\<rparr>]"
    by (simp_all add: labels_for_def hebrew_def english_def)
  with m show ?thesis by blast
qed

end
